theory Spec2Isabelle
  imports Complex_Main "HOL-Library.Word"
begin

section \<open>The speaker service (server/speaker-service/speaker_service.py)\<close>

text \<open>
  A shallow embedding of the FastAPI sidecar: the four module globals, the start-up
  routine \<^verbatim>\<open>_load_models\<close>, the helper \<^verbatim>\<open>_load_audio\<close> and the four
  endpoints \<^verbatim>\<open>/health\<close>, \<^verbatim>\<open>/embed\<close>, \<^verbatim>\<open>/compare\<close>, \<^verbatim>\<open>/diarize\<close>.

  Conventions of the model.
  \<^item> The module globals are passed explicitly: every endpoint maps the globals it finds
    and its request to the globals it leaves, its response and its effects.
  \<^item> A raised \<^verbatim>\<open>HTTPException\<close> is the left summand of the response.
  \<^item> The effects are listed in the order the handler performs them, so that statements of
    the form "fails before doing X" can be read off the trace.
  \<^item> The external libraries (torchaudio, SpeechBrain, pyannote) are parameters: a decoder,
    a resampler, and the two loaded models, each a function returning either the text of
    the exception it raised or its value. Creating the temporary file is taken to succeed.
  \<^item> The floating-point operations (NumPy's, torch's and Python's, in binary32 or
    binary64) are parameters too, collected in a record; a number is the exact value of a
    finite float. Inputs on which the code overflows to an infinity or NaN have no
    counterpart here. The one rounding the source writes out itself, \<^verbatim>\<open>round(x, n)\<close>, is
    modelled.
\<close>

subsection \<open>Errors and effects\<close>

datatype http_error = HTTPException (status_code: nat) (detail: string)

datatype event =
    ReadUpload
  | TmpWrite string
  | TorchaudioLoad
  | Unlink
  | Resample nat
  | EncodeBatch
  | PipelineCall
  | LoadEcapa
  | LoadPipeline
  | NpDot
  | NpNorm
  | Divide

subsection \<open>Python's \<^verbatim>\<open>round(x, ndigits)\<close>\<close>

text \<open>Python rounds to the nearest multiple of \<open>10^-ndigits\<close>, ties to the even one.\<close>

definition round_half_even :: "real \<Rightarrow> int" where
  "round_half_even x =
     (let f = \<lfloor>x\<rfloor>; d = x - of_int f
      in if d < 1 / 2 then f
         else if 1 / 2 < d then f + 1
         else if even f then f else f + 1)"

definition py_round :: "real \<Rightarrow> nat \<Rightarrow> real" where
  "py_round x ndigits = of_int (round_half_even (x * 10 ^ ndigits)) / 10 ^ ndigits"


subsection \<open>Arrays and the floating-point operations\<close>

record ndarray =
  shape :: "nat list"
  data :: "real list"

text \<open>
  The operations the service leaves to the libraries and the runtime, as they compute them:
  \<^item> \<open>f32_of\<close>: the conversion of one number to binary32 in \<^verbatim>\<open>np.array(..., dtype=np.float32)\<close>;
  \<^item> \<open>np_dot\<close>, \<open>np_linalg_norm\<close>: \<^verbatim>\<open>np.dot\<close> and \<^verbatim>\<open>np.linalg.norm\<close> on one-dimensional
    binary32 arrays;
  \<^item> \<open>f_mul\<close>, \<open>add_eps\<close>, \<open>f_div\<close>: the product of the two norms, the sum with the
    literal \<^verbatim>\<open>1e-8\<close> and the quotient at line 180 (binary32 or binary64, as NumPy's
    promotion rules decide);
  \<^item> \<open>tensor_mean\<close>: the mean torch takes of the values of one frame across the channels;
  \<^item> \<open>py_div\<close>: Python's \<^verbatim>\<open>/\<close> on floats.
\<close>

record float_ops =
  f32_of :: "real \<Rightarrow> real"
  np_dot :: "ndarray \<Rightarrow> ndarray \<Rightarrow> real"
  np_linalg_norm :: "ndarray \<Rightarrow> real"
  f_mul :: "real \<Rightarrow> real \<Rightarrow> real"
  add_eps :: "real \<Rightarrow> real"
  f_div :: "real \<Rightarrow> real \<Rightarrow> real"
  tensor_mean :: "real list \<Rightarrow> real"
  py_div :: "real \<Rightarrow> real \<Rightarrow> real"

text \<open>The operations without rounding error.\<close>

definition exact_dot :: "ndarray \<Rightarrow> ndarray \<Rightarrow> real" where
  "exact_dot a b = (\<Sum>(x, y)\<leftarrow>zip (data a) (data b). x * y)"

definition exact_norm :: "ndarray \<Rightarrow> real" where
  "exact_norm a = sqrt (\<Sum>x\<leftarrow>data a. x\<^sup>2)"

definition exact_mean :: "real list \<Rightarrow> real" where
  "exact_mean xs = sum_list xs / real (length xs)"

definition exact_ops :: float_ops where
  "exact_ops =
     \<lparr>f32_of = (\<lambda>x. x), np_dot = exact_dot, np_linalg_norm = exact_norm,
      f_mul = (\<lambda>x y. x * y), add_eps = (\<lambda>x. x + 1 / 10 ^ 8), f_div = (\<lambda>x y. x / y),
      tensor_mean = exact_mean, py_div = (\<lambda>x y. x / y)\<rparr>"

text \<open>
  \<open>accurate u x y\<close>: the computed value \<open>y\<close> differs from the exact value \<open>x\<close> by a relative
  error of at most \<open>u\<close>.
\<close>

definition accurate :: "real \<Rightarrow> real \<Rightarrow> real \<Rightarrow> bool" where
  "accurate u x y \<longleftrightarrow> \<bar>y - x\<bar> \<le> u * \<bar>x\<bar>"

subsection \<open>The module globals and \<^verbatim>\<open>_load_models\<close>\<close>

datatype tensor = Tensor1 "real list" | Tensor2 "real list list"

type_synonym bytes = "8 word list"

text \<open>
  The embedding model as the service uses it: \<^verbatim>\<open>encode_batch\<close> on a batch of one
  waveform, squeezed to a list. The diarization pipeline: called on the temporary file
  (suffix and content), it yields the tracks as (start, end, speaker).
\<close>

type_synonym ecapa = "tensor \<Rightarrow> string + real list"

type_synonym pipeline = "string \<Rightarrow> bytes \<Rightarrow> string + (real \<times> real \<times> string) list"

record model_state =
  ecapa_model :: "ecapa option"
  diarization_pipeline :: "pipeline option"
  models_loaded :: bool
  diarization_available :: bool

text \<open>Lines 19 to 22.\<close>

definition initial_state :: model_state where
  "initial_state =
     \<lparr>ecapa_model = None, diarization_pipeline = None,
      models_loaded = False, diarization_available = False\<rparr>"

text \<open>
  \<^verbatim>\<open>_load_models\<close>, the one function that declares the four names \<^verbatim>\<open>global\<close>.
  \<open>from_hparams\<close> is the outcome of loading ECAPA-TDNN (an exception there is not caught,
  and start-up fails); \<open>hf_token\<close> is the environment variable; \<open>from_pretrained\<close> is
  \<^verbatim>\<open>Pipeline.from_pretrained\<close> with that token, which raises, or returns the pipeline, or
  returns \<^verbatim>\<open>None\<close>.
\<close>

definition load_models ::
  "(string + ecapa) \<Rightarrow> (string \<Rightarrow> string + pipeline option) \<Rightarrow> string option \<Rightarrow>
   model_state \<Rightarrow> string + (model_state \<times> event list)" where
  "load_models from_hparams from_pretrained hf_token st =
     (case from_hparams of
        Inl exc \<Rightarrow> Inl exc
      | Inr model \<Rightarrow>
          (let st1 = st\<lparr>ecapa_model := Some model\<rparr>;
               (st2, ev) =
                 (case hf_token of
                    None \<Rightarrow> (st1, [])
                  | Some tok \<Rightarrow>
                      if tok = [] then (st1, [])
                      else (case from_pretrained tok of
                              Inl exc \<Rightarrow> (st1, [LoadPipeline])
                            | Inr p \<Rightarrow>
                                (st1\<lparr>diarization_pipeline := p, diarization_available := True\<rparr>,
                                 [LoadPipeline])))
           in Inr (st2\<lparr>models_loaded := True\<rparr>, LoadEcapa # ev)))"

subsection \<open>\<^verbatim>\<open>/compare\<close>: cosine similarity of two embeddings\<close>

text \<open>\<^verbatim>\<open>np.array(xs, dtype=np.float32)\<close> on a list of numbers: a one-dimensional array of
  the converted elements.\<close>

definition np_array :: "float_ops \<Rightarrow> real list \<Rightarrow> ndarray" where
  "np_array ops xs = \<lparr>shape = [length xs], data = map (f32_of ops) xs\<rparr>"

definition ndim :: "ndarray \<Rightarrow> nat" where
  "ndim a = length (shape a)"

record compare_request =
  embedding_a :: "real list"
  embedding_b :: "real list"

record compare_response =
  similarity :: real
  is_match :: bool

text \<open>Line 180: \<^verbatim>\<open>np.dot(a, b) / (np.linalg.norm(a) * np.linalg.norm(b) + 1e-8)\<close>.\<close>

definition cos_sim :: "float_ops \<Rightarrow> ndarray \<Rightarrow> ndarray \<Rightarrow> real" where
  "cos_sim ops a b =
     f_div ops (np_dot ops a b)
       (add_eps ops (f_mul ops (np_linalg_norm ops a) (np_linalg_norm ops b)))"

text \<open>
  Lines 177 to 181: the shape check, then the arithmetic and the response. The test
  \<^verbatim>\<open>cos_sim >= 0.80\<close> compares with the double nearest to 0.8; no double lies between
  that and 4/5, so on the values a float takes the test is \<open>4/5 \<le> cos_sim\<close>.
  \<^verbatim>\<open>round(cos_sim, 4)\<close> is written as the decimal it rounds to.
\<close>

definition compare_arrays ::
  "float_ops \<Rightarrow> ndarray \<Rightarrow> ndarray \<Rightarrow> (http_error + compare_response) \<times> event list" where
  "compare_arrays ops a b =
     (if shape a \<noteq> shape b \<or> ndim a \<noteq> 1
      then (Inl (HTTPException 400 ''Embeddings must be 1-D arrays of equal length''), [])
      else (Inr \<lparr>similarity = py_round (cos_sim ops a b) 4,
                 is_match = (8 / 10 \<le> cos_sim ops a b)\<rparr>,
            [NpDot, NpNorm, NpNorm, Divide]))"

definition compare ::
  "float_ops \<Rightarrow> model_state \<Rightarrow> compare_request \<Rightarrow>
   model_state \<times> (http_error + compare_response) \<times> event list" where
  "compare ops st req =
     (st, compare_arrays ops (np_array ops (embedding_a req)) (np_array ops (embedding_b req)))"

subsection \<open>File names: \<^verbatim>\<open>os.path.splitext\<close> (POSIX) and \<^verbatim>\<open>str.lower\<close>\<close>

text \<open>\<^verbatim>\<open>p.rfind(c)\<close>: the last index of \<open>c\<close> in \<open>p\<close>, or \<open>-1\<close>.\<close>

definition rfind :: "string \<Rightarrow> char \<Rightarrow> int" where
  "rfind p c =
     (if c \<in> set p then int (length p) - 1 - int (length (takeWhile (\<lambda>x. x \<noteq> c) (rev p)))
      else - 1)"

text \<open>
  The loop of \<^verbatim>\<open>genericpath._splitext\<close> that skips the leading dots of the last path
  component: it returns the split at the first character that is not a dot, and falls
  through (\<open>None\<close>) when the component has only leading dots before its last dot.
\<close>

function splitext_loop :: "string \<Rightarrow> nat \<Rightarrow> nat \<Rightarrow> (string \<times> string) option" where
  "splitext_loop p filenameIndex dotIndex =
     (if filenameIndex < dotIndex
      then (if p ! filenameIndex \<noteq> CHR ''.''
            then Some (take dotIndex p, drop dotIndex p)
            else splitext_loop p (filenameIndex + 1) dotIndex)
      else None)"
  by pat_completeness auto
termination
  by (relation "measure (\<lambda>(p, filenameIndex, dotIndex). dotIndex - filenameIndex)") auto

declare splitext_loop.simps [simp del]

definition splitext :: "string \<Rightarrow> string \<times> string" where
  "splitext p =
     (let sepIndex = rfind p CHR ''/''; dotIndex = rfind p CHR ''.''
      in if sepIndex < dotIndex
         then (case splitext_loop p (nat (sepIndex + 1)) (nat dotIndex) of
                 Some r \<Rightarrow> r
               | None \<Rightarrow> (p, []))
         else (p, []))"

text \<open>
  \<^verbatim>\<open>str.lower\<close> on the ASCII letters. (Outside ASCII only U+212A lowers to an ASCII
  letter, \<open>k\<close>, which no supported extension contains.)
\<close>

definition lower_char :: "char \<Rightarrow> char" where
  "lower_char c =
     (case map_of (zip ''ABCDEFGHIJKLMNOPQRSTUVWXYZ'' ''abcdefghijklmnopqrstuvwxyz'') c of
        None \<Rightarrow> c
      | Some l \<Rightarrow> l)"

definition lower :: "string \<Rightarrow> string" where
  "lower s = map lower_char s"

definition SUPPORTED_EXTENSIONS :: "string set" where
  "SUPPORTED_EXTENSIONS = {''.wav'', ''.mp3'', ''.ogg'', ''.webm'', ''.m4a'', ''.flac'', ''.aac''}"

text \<open>
  Lines 84 and 193: \<^verbatim>\<open>os.path.splitext(filename or "audio.wav")[1].lower()\<close>. An upload's
  file name is optional; \<^verbatim>\<open>or\<close> takes the default for \<^verbatim>\<open>None\<close> and for the empty string.
\<close>

definition suffix_of :: "string option \<Rightarrow> string" where
  "suffix_of filename =
     lower (snd (splitext (case filename of
                             None \<Rightarrow> ''audio.wav''
                           | Some f \<Rightarrow> if f = [] then ''audio.wav'' else f)))"


subsection \<open>\<^verbatim>\<open>_load_audio\<close>: decode, downmix, resample\<close>

text \<open>
  \<^verbatim>\<open>torchaudio.load\<close> on the temporary file (its suffix and its content): the text of the
  exception, or the waveform as channels of frames together with the native sample rate.
\<close>

type_synonym decoder = "string \<Rightarrow> bytes \<Rightarrow> string + (real list list \<times> nat)"

text \<open>\<^verbatim>\<open>torchaudio.functional.resample(waveform, orig_freq, new_freq)\<close>.\<close>

type_synonym resampler = "real list list \<Rightarrow> nat \<Rightarrow> nat \<Rightarrow> real list list"

text \<open>\<^verbatim>\<open>waveform.mean(dim=0, keepdim=True)\<close>: one channel; frame \<open>i\<close> is the mean of the
  channels' values at frame \<open>i\<close>.\<close>

definition mean_dim0 :: "float_ops \<Rightarrow> real list list \<Rightarrow> real list list" where
  "mean_dim0 ops waveform =
     [map (\<lambda>i. tensor_mean ops (map (\<lambda>ch. ch ! i) waveform)) [0..<length (hd waveform)]]"

text \<open>\<^verbatim>\<open>waveform.squeeze(0)\<close>: drops the first dimension when its size is 1.\<close>

definition squeeze0 :: "real list list \<Rightarrow> tensor" where
  "squeeze0 waveform = (case waveform of [row] \<Rightarrow> Tensor1 row | _ \<Rightarrow> Tensor2 waveform)"

text \<open>Lines 99 to 105, on the decoded waveform.\<close>

definition to_mono :: "float_ops \<Rightarrow> real list list \<Rightarrow> real list list" where
  "to_mono ops waveform = (if 1 < length waveform then mean_dim0 ops waveform else waveform)"

definition to_16k :: "resampler \<Rightarrow> real list list \<Rightarrow> nat \<Rightarrow> real list list \<times> event list" where
  "to_16k resample waveform sr =
     (if sr \<noteq> 16000 then (resample waveform sr 16000, [Resample sr]) else (waveform, []))"

definition load_audio ::
  "float_ops \<Rightarrow> decoder \<Rightarrow> resampler \<Rightarrow> bytes \<Rightarrow> string option \<Rightarrow>
   (http_error + tensor) \<times> event list" where
  "load_audio ops torchaudio_load resample dat filename =
     (let suffix = suffix_of filename
      in if suffix \<notin> SUPPORTED_EXTENSIONS
         then (Inl (HTTPException 400 (''Unsupported format: '' @ suffix)), [])
         else (case torchaudio_load suffix dat of
                 Inl exc \<Rightarrow>
                   (Inl (HTTPException 400 (''Cannot decode audio: '' @ exc)),
                    [TmpWrite suffix, TorchaudioLoad, Unlink])
               | Inr (waveform, sr) \<Rightarrow>
                   (let (resampled, ev) = to_16k resample (to_mono ops waveform) sr
                    in (Inr (squeeze0 resampled),
                        [TmpWrite suffix, TorchaudioLoad, Unlink] @ ev))))"

subsection \<open>The upload endpoints and \<^verbatim>\<open>/health\<close>\<close>

record upload_file =
  filename :: "string option"
  content :: bytes

record health_response =
  status :: string
  health_models_loaded :: bool
  health_diarization_available :: bool

record embed_response =
  embedding :: "real list"
  duration_s :: real

record diarize_segment =
  speaker :: string
  seg_start :: real
  seg_end :: real

record diarize_response =
  segments :: "diarize_segment list"

definition health ::
  "model_state \<Rightarrow> model_state \<times> (http_error + health_response) \<times> event list" where
  "health st =
     (st,
      Inr \<lparr>status = ''ok'', health_models_loaded = models_loaded st,
           health_diarization_available = diarization_available st\<rparr>,
      [])"

text \<open>\<^verbatim>\<open>len(waveform)\<close>: the size of the first dimension.\<close>

definition tensor_len :: "tensor \<Rightarrow> nat" where
  "tensor_len t = (case t of Tensor1 xs \<Rightarrow> length xs | Tensor2 rows \<Rightarrow> length rows)"

text \<open>
  \<^verbatim>\<open>/embed\<close>. An exception of the model is not caught in the handler; the framework
  answers it with status 500.
\<close>

definition embed ::
  "float_ops \<Rightarrow> decoder \<Rightarrow> resampler \<Rightarrow> model_state \<Rightarrow> upload_file \<Rightarrow>
   model_state \<times> (http_error + embed_response) \<times> event list" where
  "embed ops torchaudio_load resample st file =
     (case ecapa_model st of
        None \<Rightarrow> (st, Inl (HTTPException 503 ''Model not loaded''), [])
      | Some model \<Rightarrow>
          (case load_audio ops torchaudio_load resample (content file) (filename file) of
             (Inl err, ev) \<Rightarrow> (st, Inl err, ReadUpload # ev)
           | (Inr waveform, ev) \<Rightarrow>
               (case model waveform of
                  Inl exc \<Rightarrow>
                    (st, Inl (HTTPException 500 ''Internal Server Error''),
                     ReadUpload # ev @ [EncodeBatch])
                | Inr emb \<Rightarrow>
                    (st,
                     Inr \<lparr>embedding = emb,
                          duration_s =
                            py_round (py_div ops (real (tensor_len waveform)) 16000) 3\<rparr>,
                     ReadUpload # ev @ [EncodeBatch]))))"

text \<open>\<^verbatim>\<open>/diarize\<close>. The suffix only names the temporary file; it is not checked.\<close>

definition diarize ::
  "model_state \<Rightarrow> upload_file \<Rightarrow>
   model_state \<times> (http_error + diarize_response) \<times> event list" where
  "diarize st file =
     (case diarization_pipeline st of
        None \<Rightarrow>
          (st,
           Inl (HTTPException 503
             ''Diarization not available. Set HF_TOKEN and accept pyannote model terms.''), [])
      | Some pipeline \<Rightarrow>
          (let suffix = suffix_of (filename file)
           in (case pipeline suffix (content file) of
                 Inl exc \<Rightarrow>
                   (st, Inl (HTTPException 500 (''Diarization failed: '' @ exc)),
                    [ReadUpload, TmpWrite suffix, PipelineCall, Unlink])
               | Inr tracks \<Rightarrow>
                   (st,
                    Inr \<lparr>segments =
                           map (\<lambda>(s, e, spk).
                                  \<lparr>speaker = spk, seg_start = py_round s 3, seg_end = py_round e 3\<rparr>)
                               tracks\<rparr>,
                    [ReadUpload, TmpWrite suffix, PipelineCall, Unlink]))))"

subsection \<open>The server: start-up, then requests\<close>

datatype request =
    Health
  | Embed upload_file
  | Compare compare_request
  | Diarize upload_file

datatype response =
    HealthR health_response
  | EmbedR embed_response
  | CompareR compare_response
  | DiarizeR diarize_response

text \<open>
  One request against the globals: the handler of its route runs, and the globals it
  leaves are the globals the next request finds. (The loaded models are called as
  functions; what a call does inside the library is not part of the four globals.)
\<close>

definition lift_result ::
  "('a \<Rightarrow> response) \<Rightarrow> model_state \<times> (http_error + 'a) \<times> event list \<Rightarrow>
   model_state \<times> (http_error + response) \<times> event list" where
  "lift_result f r = (fst r, map_sum id f (fst (snd r)), snd (snd r))"

definition handle_request ::
  "float_ops \<Rightarrow> decoder \<Rightarrow> resampler \<Rightarrow> model_state \<Rightarrow> request \<Rightarrow>
   model_state \<times> (http_error + response) \<times> event list" where
  "handle_request ops torchaudio_load resample st req =
     (case req of
        Health \<Rightarrow> lift_result HealthR (health st)
      | Embed file \<Rightarrow> lift_result EmbedR (embed ops torchaudio_load resample st file)
      | Compare body \<Rightarrow> lift_result CompareR (compare ops st body)
      | Diarize file \<Rightarrow> lift_result DiarizeR (diarize st file))"

text \<open>The states the process goes through while it serves a list of requests.\<close>

fun server_states ::
  "float_ops \<Rightarrow> decoder \<Rightarrow> resampler \<Rightarrow> model_state \<Rightarrow> request list \<Rightarrow> model_state list" where
  "server_states ops torchaudio_load resample st [] = []"
| "server_states ops torchaudio_load resample st (req # reqs) =
     (let st' = fst (handle_request ops torchaudio_load resample st req)
      in st' # server_states ops torchaudio_load resample st' reqs)"

text \<open>
  The process (lines 58 to 61): \<^verbatim>\<open>lifespan\<close> runs \<^verbatim>\<open>_load_models\<close> on the initial
  globals before the first request is served; a failed start-up serves nothing. The result
  lists the state after start-up and after each request.
\<close>

definition run_server ::
  "(string + ecapa) \<Rightarrow> (string \<Rightarrow> string + pipeline option) \<Rightarrow> string option \<Rightarrow>
   float_ops \<Rightarrow> decoder \<Rightarrow> resampler \<Rightarrow> request list \<Rightarrow> string + model_state list" where
  "run_server from_hparams from_pretrained hf_token ops torchaudio_load resample reqs =
     (case load_models from_hparams from_pretrained hf_token initial_state of
        Inl exc \<Rightarrow> Inl exc
      | Inr (st, ev) \<Rightarrow> Inr (st # server_states ops torchaudio_load resample st reqs))"

subsection \<open>Concrete collaborators for the examples\<close>

text \<open>A decoder that finds two channels of three frames at 8 kHz, and a resampler that
  repeats every frame.\<close>

definition stub_decoder :: decoder where
  "stub_decoder suffix dat = Inr ([[1, 3, 5], [3, 5, 7]], 8000)"

definition stub_resample :: resampler where
  "stub_resample waveform orig_freq new_freq = map (\<lambda>ch. concat (map (\<lambda>x. [x, x]) ch)) waveform"

definition stub_ecapa :: ecapa where
  "stub_ecapa batch = Inr [3 / 5, 4 / 5]"

definition stub_pipeline :: pipeline where
  "stub_pipeline suffix dat = Inr [(0, 1 / 2, ''SPEAKER_00'')]"

definition stub_state :: model_state where
  "stub_state =
     \<lparr>ecapa_model = Some stub_ecapa, diarization_pipeline = Some stub_pipeline,
      models_loaded = True, diarization_available = True\<rparr>"

section \<open>Properties of \<^verbatim>\<open>/compare\<close>\<close>

subsection \<open>Rounding to four places\<close>

lemma round_half_even_up:
  assumes "of_int n - 1 / 2 \<le> x" "x < of_int n" "odd (n - 1)"
  shows "round_half_even x = n"
proof -
  have f: "\<lfloor>x\<rfloor> = n - 1"
    using assms by (intro floor_unique) auto
  show ?thesis
    using assms by (auto simp: round_half_even_def f Let_def)
qed


lemma round_half_even_ge_floor: "\<lfloor>x\<rfloor> \<le> round_half_even x"
  by (simp add: round_half_even_def Let_def)


lemma py_round_to_threshold:
  assumes "79995 / 100000 \<le> c" "c < 4 / 5"
  shows "py_round c 4 = 4 / 5"
proof -
  have "round_half_even (c * 10 ^ 4) = 8000"
    using assms by (intro round_half_even_up) auto
  then show ?thesis by (simp add: py_round_def)
qed

lemma py_round_ge_threshold:
  assumes "4 / 5 \<le> c"
  shows "4 / 5 \<le> py_round c 4"
proof -
  have "(8000::int) \<le> \<lfloor>c * 10 ^ 4\<rfloor>"
    using assms by (simp add: le_floor_iff)
  then have "8000 \<le> round_half_even (c * 10 ^ 4)"
    using round_half_even_ge_floor [of "c * 10 ^ 4"] by linarith
  then have "(8000::real) \<le> of_int (round_half_even (c * 10 ^ 4))"
    by linarith
  then show ?thesis
    by (simp add: py_round_def field_simps)
qed

subsection \<open>The exact operations\<close>

lemma sum_list_sq_nonneg: "0 \<le> (\<Sum>x\<leftarrow>xs. (x::real)\<^sup>2)"
  by (induction xs) auto

lemma zip_dot_commute:
  "(\<Sum>(x, y)\<leftarrow>zip xs ys. x * y) = (\<Sum>(x, y)\<leftarrow>zip ys xs. (x::real) * y)"
proof (induction xs arbitrary: ys)
  case Nil
  show ?case by simp
next
  case (Cons x xs)
  show ?case
  proof (cases ys)
    case Nil
    then show ?thesis by simp
  next
    case (Cons y ys')
    with Cons.IH [of ys'] show ?thesis by (simp add: mult.commute)
  qed
qed

lemma exact_dot_commute: "exact_dot a b = exact_dot b a"
  unfolding exact_dot_def by (rule zip_dot_commute)

lemma cos_sim_exact:
  "cos_sim exact_ops a b = exact_dot a b / (exact_norm a * exact_norm b + 1 / 10 ^ 8)"
  by (simp add: cos_sim_def exact_ops_def)

lemma cos_sim_exact_commute: "cos_sim exact_ops a b = cos_sim exact_ops b a"
  by (simp add: cos_sim_exact exact_dot_commute mult.commute)

lemma np_array_exact: "np_array exact_ops xs = \<lparr>shape = [length xs], data = xs\<rparr>"
  by (simp add: np_array_def exact_ops_def)

lemma cos_sim_singleton:
  "cos_sim exact_ops (np_array exact_ops [x]) (np_array exact_ops [y]) =
     x * y / (\<bar>x\<bar> * \<bar>y\<bar> + 1 / 10 ^ 8)"
  by (simp add: cos_sim_exact np_array_exact exact_dot_def exact_norm_def)

text \<open>What \<^verbatim>\<open>/compare\<close> answers when the two lists have the same length.\<close>

lemma compare_equal_length:
  "length a = length b \<Longrightarrow>
   compare ops st \<lparr>embedding_a = a, embedding_b = b\<rparr> =
     (st,
      Inr \<lparr>similarity = py_round (cos_sim ops (np_array ops a) (np_array ops b)) 4,
           is_match = (4 / 5 \<le> cos_sim ops (np_array ops a) (np_array ops b))\<rparr>,
      [NpDot, NpNorm, NpNorm, Divide])"
  by (simp add: compare_def compare_arrays_def np_array_def ndim_def)

lemma compare_just_below_threshold:
  assumes "length a = length b"
      and "79995 / 100000 \<le> cos_sim ops (np_array ops a) (np_array ops b)"
      and "cos_sim ops (np_array ops a) (np_array ops b) < 4 / 5"
  shows "compare ops st \<lparr>embedding_a = a, embedding_b = b\<rparr> =
     (st, Inr \<lparr>similarity = 4 / 5, is_match = False\<rparr>, [NpDot, NpNorm, NpNorm, Divide])"
  using assms by (simp add: compare_equal_length py_round_to_threshold)

lemma cos_sim_19999:
  "cos_sim exact_ops (np_array exact_ops [19999 / 10 ^ 8]) (np_array exact_ops [19999 / 10 ^ 8]) =
     399960001 / 499960001"
  by (simp add: cos_sim_singleton)

lemma cos_sim_19998:
  "cos_sim exact_ops (np_array exact_ops [19998 / 10 ^ 8]) (np_array exact_ops [19998 / 10 ^ 8]) =
     99980001 / 124980001"
  by (simp add: cos_sim_singleton)

lemma compare_19999:
  "compare exact_ops st \<lparr>embedding_a = [19999 / 10 ^ 8], embedding_b = [19999 / 10 ^ 8]\<rparr> =
     (st, Inr \<lparr>similarity = 4 / 5, is_match = False\<rparr>, [NpDot, NpNorm, NpNorm, Divide])"
proof (rule compare_just_below_threshold)
  show "length [19999 / 10 ^ 8 :: real] = length [19999 / 10 ^ 8 :: real]"
    by simp
  show "79995 / 100000 \<le>
      cos_sim exact_ops (np_array exact_ops [19999 / 10 ^ 8]) (np_array exact_ops [19999 / 10 ^ 8])"
    unfolding cos_sim_19999 by simp
  show "cos_sim exact_ops (np_array exact_ops [19999 / 10 ^ 8]) (np_array exact_ops [19999 / 10 ^ 8])
      < 4 / 5"
    unfolding cos_sim_19999 by simp
qed


lemma accurate_refl: "0 \<le> u \<Longrightarrow> accurate u x x"
  by (simp add: accurate_def)

subsection \<open>Line 180 under rounding\<close>



subsection \<open>Self-similarity\<close>




subsection \<open>The threshold\<close>

text \<open>
  Claim C3 says that a similarity of exactly 0.80 gives \<open>is_match = true\<close>, \<open>is_match\<close>
  being \<open>similarity >= 0.80\<close>. Of the similarity the response carries this fails: for the
  embedding \<open>[0.00019998]\<close> compared with itself the cosine is about 0.799968, the
  response carries similarity 0.8, and \<open>is_match\<close> is false.
\<close>

theorem compare_rounded_threshold_no_match:
  "compare exact_ops initial_state
     \<lparr>embedding_a = [19998 / 10 ^ 8], embedding_b = [19998 / 10 ^ 8]\<rparr> =
     (initial_state, Inr \<lparr>similarity = 4 / 5, is_match = False\<rparr>,
      [NpDot, NpNorm, NpNorm, Divide])"
proof (rule compare_just_below_threshold)
  show "length [19998 / 10 ^ 8 :: real] = length [19998 / 10 ^ 8 :: real]"
    by simp
  show "79995 / 100000 \<le>
      cos_sim exact_ops (np_array exact_ops [19998 / 10 ^ 8]) (np_array exact_ops [19998 / 10 ^ 8])"
    unfolding cos_sim_19998 by simp
  show "cos_sim exact_ops (np_array exact_ops [19998 / 10 ^ 8]) (np_array exact_ops [19998 / 10 ^ 8])
      < 4 / 5"
    unfolding cos_sim_19998 by simp
qed

text \<open>
  Claim C3, amended: for two embeddings of equal length, \<open>is_match\<close> is true exactly when
  the cosine computed at line 180, before it is rounded, is at least 0.80 (the test is
  \<^verbatim>\<open>>=\<close>, so 0.80 itself matches); the similarity returned is that cosine rounded to four
  places, and \<open>is_match = true\<close> implies that the returned similarity is at least 0.80.
\<close>

theorem compare_match_on_unrounded_cosine:
  assumes "length a = length b"
  shows "\<exists>r. compare ops st \<lparr>embedding_a = a, embedding_b = b\<rparr> =
               (st, Inr r, [NpDot, NpNorm, NpNorm, Divide]) \<and>
             is_match r = (4 / 5 \<le> cos_sim ops (np_array ops a) (np_array ops b)) \<and>
             similarity r = py_round (cos_sim ops (np_array ops a) (np_array ops b)) 4 \<and>
             (is_match r \<longrightarrow> 4 / 5 \<le> similarity r)"
proof (intro exI conjI impI)
  let ?c = "cos_sim ops (np_array ops a) (np_array ops b)"
  let ?r = "\<lparr>similarity = py_round ?c 4, is_match = (4 / 5 \<le> ?c)\<rparr>"
  show "compare ops st \<lparr>embedding_a = a, embedding_b = b\<rparr> =
      (st, Inr ?r, [NpDot, NpNorm, NpNorm, Divide])"
    using assms by (rule compare_equal_length)
  show "is_match ?r = (4 / 5 \<le> ?c)" by simp
  show "similarity ?r = py_round ?c 4" by simp
  assume "is_match ?r"
  then have "4 / 5 \<le> ?c" by simp
  then have "4 / 5 \<le> py_round ?c 4" by (rule py_round_ge_threshold)
  then show "4 / 5 \<le> similarity ?r" by simp
qed

theorem compare_match_on_unrounded_cosine_witness:
  "length [3 / 5, 4 / 5 :: real] = length [3 / 5, 4 / 5 :: real] \<and>
   (\<exists>r. compare exact_ops initial_state
           \<lparr>embedding_a = [3 / 5, 4 / 5], embedding_b = [3 / 5, 4 / 5]\<rparr> =
           (initial_state, Inr r, [NpDot, NpNorm, NpNorm, Divide]) \<and>
         is_match r \<and> 4 / 5 \<le> similarity r)"
proof -
  have l: "length [3 / 5, 4 / 5 :: real] = length [3 / 5, 4 / 5 :: real]"
    by simp
  have c: "4 / 5 \<le>
      cos_sim exact_ops (np_array exact_ops [3 / 5, 4 / 5]) (np_array exact_ops [3 / 5, 4 / 5])"
    by (simp add: cos_sim_exact np_array_exact exact_dot_def exact_norm_def power2_eq_square)
  from compare_match_on_unrounded_cosine [OF l, of exact_ops initial_state] c
  show ?thesis by auto
qed

text \<open>
  Claim C9: the reported similarity is the cosine rounded to four places while \<open>is_match\<close>
  tests the unrounded cosine, so there are embeddings of equal length for which the
  response carries a similarity of 0.8 together with \<open>is_match = false\<close>: the unrounded
  cosine lies below the threshold and rounds up to it.
\<close>

theorem compare_similarity_match_inconsistent:
  "\<exists>a b. length a = length b \<and>
     79995 / 100000 \<le> cos_sim exact_ops (np_array exact_ops a) (np_array exact_ops b) \<and>
     cos_sim exact_ops (np_array exact_ops a) (np_array exact_ops b) < 4 / 5 \<and>
     compare exact_ops st \<lparr>embedding_a = a, embedding_b = b\<rparr> =
       (st, Inr \<lparr>similarity = 4 / 5, is_match = False\<rparr>, [NpDot, NpNorm, NpNorm, Divide])"
proof (intro exI conjI)
  show "length [19999 / 10 ^ 8 :: real] = length [19999 / 10 ^ 8 :: real]"
    by simp
  show "79995 / 100000 \<le>
      cos_sim exact_ops (np_array exact_ops [19999 / 10 ^ 8]) (np_array exact_ops [19999 / 10 ^ 8])"
    unfolding cos_sim_19999 by simp
  show "cos_sim exact_ops (np_array exact_ops [19999 / 10 ^ 8]) (np_array exact_ops [19999 / 10 ^ 8])
      < 4 / 5"
    unfolding cos_sim_19999 by simp
  show "compare exact_ops st \<lparr>embedding_a = [19999 / 10 ^ 8], embedding_b = [19999 / 10 ^ 8]\<rparr> =
     (st, Inr \<lparr>similarity = 4 / 5, is_match = False\<rparr>, [NpDot, NpNorm, NpNorm, Divide])"
    by (rule compare_19999)
qed

subsection \<open>The shape check\<close>

text \<open>
  Claim C4: when the two arrays differ in shape or are not one-dimensional, and so
  whenever the two lists of the request differ in length, \<^verbatim>\<open>/compare\<close> fails with status
  400 and has computed no dot product, norm or quotient.
\<close>

theorem compare_shape_mismatch:
  "(shape a \<noteq> shape b \<or> ndim a \<noteq> 1 \<longrightarrow>
      compare_arrays ops a b =
        (Inl (HTTPException 400 ''Embeddings must be 1-D arrays of equal length''), [])) \<and>
   (length xs \<noteq> length ys \<longrightarrow>
      compare ops st \<lparr>embedding_a = xs, embedding_b = ys\<rparr> =
        (st, Inl (HTTPException 400 ''Embeddings must be 1-D arrays of equal length''), []))"
  by (simp add: compare_def compare_arrays_def np_array_def)

theorem compare_shape_mismatch_witness:
  "length [1, 2 :: real] \<noteq> length [1 :: real] \<and>
   shape \<lparr>shape = [2, 1], data = [1, 2]\<rparr> = shape \<lparr>shape = [2, 1], data = [3, 4]\<rparr> \<and>
   ndim \<lparr>shape = [2, 1], data = [1, 2]\<rparr> \<noteq> 1 \<and>
   compare_arrays exact_ops \<lparr>shape = [2, 1], data = [1, 2]\<rparr> \<lparr>shape = [2, 1], data = [3, 4]\<rparr> =
     (Inl (HTTPException 400 ''Embeddings must be 1-D arrays of equal length''), []) \<and>
   compare exact_ops initial_state \<lparr>embedding_a = [1, 2], embedding_b = [1]\<rparr> =
     (initial_state, Inl (HTTPException 400 ''Embeddings must be 1-D arrays of equal length''), [])"
  using compare_shape_mismatch [of "\<lparr>shape = [2, 1], data = [1, 2]\<rparr>"
      "\<lparr>shape = [2, 1], data = [3, 4]\<rparr>" exact_ops "[1, 2]" "[1]" initial_state]
  by (simp add: ndim_def)

subsection \<open>Symmetry\<close>

text \<open>
  Claim C7: \<^verbatim>\<open>compare(a, b)\<close> and \<^verbatim>\<open>compare(b, a)\<close> are the same response, similarity and
  \<open>is_match\<close> both (and the same error when the lengths differ). This holds for the
  operations without rounding, and for any operations whose product and dot product do
  not depend on the order of their arguments, as those of IEEE arithmetic.
\<close>

theorem compare_symmetric:
  "compare exact_ops st \<lparr>embedding_a = a, embedding_b = b\<rparr> =
     compare exact_ops st \<lparr>embedding_a = b, embedding_b = a\<rparr> \<and>
   ((\<forall>x y. f_mul ops x y = f_mul ops y x) \<and> (\<forall>u v. np_dot ops u v = np_dot ops v u) \<longrightarrow>
      compare ops st \<lparr>embedding_a = a, embedding_b = b\<rparr> =
        compare ops st \<lparr>embedding_a = b, embedding_b = a\<rparr>)"
proof (intro conjI impI)
  show "compare exact_ops st \<lparr>embedding_a = a, embedding_b = b\<rparr> =
     compare exact_ops st \<lparr>embedding_a = b, embedding_b = a\<rparr>"
    by (auto simp: compare_def compare_arrays_def np_array_def ndim_def cos_sim_exact_commute)
next
  assume c: "(\<forall>x y. f_mul ops x y = f_mul ops y x) \<and> (\<forall>u v. np_dot ops u v = np_dot ops v u)"
  then have "cos_sim ops u v = cos_sim ops v u" for u v
    by (simp add: cos_sim_def)
  then show "compare ops st \<lparr>embedding_a = a, embedding_b = b\<rparr> =
        compare ops st \<lparr>embedding_a = b, embedding_b = a\<rparr>"
    by (auto simp: compare_def compare_arrays_def np_array_def ndim_def)
qed

theorem compare_symmetric_witness:
  "(\<forall>x y. f_mul exact_ops x y = f_mul exact_ops y x) \<and>
   (\<forall>u v. np_dot exact_ops u v = np_dot exact_ops v u) \<and>
   compare exact_ops initial_state \<lparr>embedding_a = [1, 2], embedding_b = [2, 1]\<rparr> =
     compare exact_ops initial_state \<lparr>embedding_a = [2, 1], embedding_b = [1, 2]\<rparr>"
proof -
  have c: "(\<forall>x y. f_mul exact_ops x y = f_mul exact_ops y x) \<and>
      (\<forall>u v. np_dot exact_ops u v = np_dot exact_ops v u)"
    by (simp add: exact_ops_def exact_dot_commute)
  from compare_symmetric [of initial_state "[1, 2]" "[2, 1]" exact_ops] c
  show ?thesis by blast
qed

section \<open>Properties of the upload endpoints\<close>

subsection \<open>File-name suffixes\<close>

lemmas suffix_eval =
  suffix_of_def splitext_def rfind_def splitext_loop.simps lower_def lower_char_def

lemma suffix_of_default: "suffix_of None = ''.wav''" "suffix_of (Some []) = ''.wav''"
  by (simp_all add: suffix_eval)

lemma wav_supported: "''.wav'' \<in> SUPPORTED_EXTENSIONS"
  by (simp add: SUPPORTED_EXTENSIONS_def)

lemma suffix_of_notes_txt: "suffix_of (Some ''notes.txt'') = ''.txt''"
  by (simp add: suffix_eval)

lemma txt_unsupported: "''.txt'' \<notin> SUPPORTED_EXTENSIONS"
  by (simp add: SUPPORTED_EXTENSIONS_def)

lemma load_audio_unsupported:
  "suffix_of fn \<notin> SUPPORTED_EXTENSIONS \<Longrightarrow>
   load_audio ops torchaudio_load resample dat fn =
     (Inl (HTTPException 400 (''Unsupported format: '' @ suffix_of fn)), [])"
  by (simp add: load_audio_def)

lemma load_audio_supported_trace:
  "suffix_of fn \<in> SUPPORTED_EXTENSIONS \<Longrightarrow>
   take 3 (snd (load_audio ops torchaudio_load resample dat fn)) =
     [TmpWrite (suffix_of fn), TorchaudioLoad, Unlink]"
  by (auto simp: load_audio_def Let_def split: sum.splits prod.splits)

subsection \<open>The format check\<close>

text \<open>
  Claim C2 says that an upload whose extension is outside the allow-list fails with
  status 400 before any temporary file is written or decoded, on \<^verbatim>\<open>/embed\<close> and on
  \<^verbatim>\<open>/diarize\<close>. On \<^verbatim>\<open>/diarize\<close> it does not: with a pipeline loaded, the upload
  \<^verbatim>\<open>notes.txt\<close> is written to a temporary file with suffix \<^verbatim>\<open>.txt\<close> and handed to the
  pipeline, and the pipeline's answer is returned.
\<close>

theorem diarize_unchecked_extension:
  "suffix_of (filename \<lparr>filename = Some ''notes.txt'', content = []\<rparr>) \<notin> SUPPORTED_EXTENSIONS \<and>
   diarize stub_state \<lparr>filename = Some ''notes.txt'', content = []\<rparr> =
     (stub_state,
      Inr \<lparr>segments = [\<lparr>speaker = ''SPEAKER_00'', seg_start = 0, seg_end = 1 / 2\<rparr>]\<rparr>,
      [ReadUpload, TmpWrite ''.txt'', PipelineCall, Unlink])"
  by (simp add: diarize_def stub_state_def stub_pipeline_def suffix_of_notes_txt txt_unsupported
      py_round_def round_half_even_def)

text \<open>
  Claim C2, amended: on \<^verbatim>\<open>/embed\<close>, when the embedding model is loaded, an upload whose
  suffix (that of its file name, or of \<^verbatim>\<open>audio.wav\<close> when the name is absent or empty) is
  outside the allow-list fails with status 400 and the detail \<^verbatim>\<open>Unsupported format\<close>; the
  upload has been read, and no temporary file has been written and nothing decoded.
\<close>

theorem embed_unsupported_format:
  assumes "ecapa_model st \<noteq> None"
      and "suffix_of (filename file) \<notin> SUPPORTED_EXTENSIONS"
  shows "embed ops torchaudio_load resample st file =
     (st, Inl (HTTPException 400 (''Unsupported format: '' @ suffix_of (filename file))),
      [ReadUpload])"
  using assms by (auto simp: embed_def load_audio_unsupported)

theorem embed_unsupported_format_witness:
  "ecapa_model stub_state \<noteq> None \<and>
   suffix_of (filename \<lparr>filename = Some ''notes.txt'', content = []\<rparr>) \<notin> SUPPORTED_EXTENSIONS \<and>
   embed exact_ops stub_decoder stub_resample stub_state
       \<lparr>filename = Some ''notes.txt'', content = []\<rparr> =
     (stub_state, Inl (HTTPException 400 ''Unsupported format: .txt''), [ReadUpload])"
  using embed_unsupported_format [of stub_state "\<lparr>filename = Some ''notes.txt'', content = []\<rparr>"
      exact_ops stub_decoder stub_resample]
  by (simp add: stub_state_def suffix_of_notes_txt txt_unsupported)

text \<open>
  Claim C10: when the upload's file name is absent or empty, the suffix is taken from the
  default \<^verbatim>\<open>audio.wav\<close>, so \<^verbatim>\<open>_load_audio\<close> passes the allow-list, writes a temporary
  \<^verbatim>\<open>.wav\<close> file and calls the decoder on it (and \<^verbatim>\<open>/diarize\<close> names its temporary file
  \<^verbatim>\<open>.wav\<close> too); \<^verbatim>\<open>_load_audio\<close> rejects the format exactly for a non-empty file name whose
  own suffix is outside the allow-list.
\<close>

theorem default_filename_passes_format_check:
  "(fn = None \<or> fn = Some [] \<longrightarrow>
      suffix_of fn = ''.wav'' \<and>
      take 3 (snd (load_audio ops torchaudio_load resample dat fn)) =
        [TmpWrite ''.wav'', TorchaudioLoad, Unlink] \<and>
      (\<forall>p. diarization_pipeline st = Some p \<longrightarrow>
         take 3 (snd (snd (diarize st \<lparr>filename = fn, content = dat\<rparr>))) =
           [ReadUpload, TmpWrite ''.wav'', PipelineCall])) \<and>
   (load_audio ops torchaudio_load resample dat fn =
      (Inl (HTTPException 400 (''Unsupported format: '' @ suffix_of fn)), [])
    \<longleftrightarrow> (\<exists>f. fn = Some f \<and> f \<noteq> [] \<and> lower (snd (splitext f)) \<notin> SUPPORTED_EXTENSIONS))"
proof (intro conjI impI allI)
  assume d: "fn = None \<or> fn = Some []"
  then show s: "suffix_of fn = ''.wav''"
    by (auto simp: suffix_of_default)
  then show "take 3 (snd (load_audio ops torchaudio_load resample dat fn)) =
        [TmpWrite ''.wav'', TorchaudioLoad, Unlink]"
    using load_audio_supported_trace [of fn ops torchaudio_load resample dat]
    by (simp add: wav_supported)
  fix p
  assume "diarization_pipeline st = Some p"
  then show "take 3 (snd (snd (diarize st \<lparr>filename = fn, content = dat\<rparr>))) =
           [ReadUpload, TmpWrite ''.wav'', PipelineCall]"
    using s by (auto simp: diarize_def Let_def split: sum.splits)
next
  show "load_audio ops torchaudio_load resample dat fn =
      (Inl (HTTPException 400 (''Unsupported format: '' @ suffix_of fn)), [])
    \<longleftrightarrow> (\<exists>f. fn = Some f \<and> f \<noteq> [] \<and> lower (snd (splitext f)) \<notin> SUPPORTED_EXTENSIONS)"
  proof (cases "suffix_of fn \<in> SUPPORTED_EXTENSIONS")
    case True
    then have "snd (load_audio ops torchaudio_load resample dat fn) \<noteq> []"
      using load_audio_supported_trace [of fn ops torchaudio_load resample dat] by auto
    moreover have "\<not> (\<exists>f. fn = Some f \<and> f \<noteq> [] \<and> lower (snd (splitext f)) \<notin> SUPPORTED_EXTENSIONS)"
      using True by (auto simp: suffix_of_def split: if_splits)
    ultimately show ?thesis by auto
  next
    case False
    have "fn \<noteq> None"
    proof
      assume "fn = None"
      with False show False by (simp add: suffix_of_default wav_supported)
    qed
    moreover have "fn \<noteq> Some []"
    proof
      assume "fn = Some []"
      with False show False by (simp add: suffix_of_default wav_supported)
    qed
    ultimately obtain f where "fn = Some f" "f \<noteq> []" by (cases fn) auto
    then show ?thesis
      using False by (auto simp: load_audio_unsupported suffix_of_def)
  qed
qed

theorem default_filename_passes_format_check_witness:
  "suffix_of None = ''.wav'' \<and>
   take 3 (snd (load_audio exact_ops stub_decoder stub_resample [] None)) =
     [TmpWrite ''.wav'', TorchaudioLoad, Unlink] \<and>
   diarization_pipeline stub_state = Some stub_pipeline \<and>
   take 3 (snd (snd (diarize stub_state \<lparr>filename = None, content = []\<rparr>))) =
     [ReadUpload, TmpWrite ''.wav'', PipelineCall] \<and>
   load_audio exact_ops stub_decoder stub_resample [] None \<noteq>
     (Inl (HTTPException 400 (''Unsupported format: '' @ suffix_of None)), [])"
proof -
  note inst = default_filename_passes_format_check
    [of None exact_ops stub_decoder stub_resample "[]" stub_state]
  have "suffix_of None = ''.wav'' \<and>
      take 3 (snd (load_audio exact_ops stub_decoder stub_resample [] None)) =
        [TmpWrite ''.wav'', TorchaudioLoad, Unlink] \<and>
      (\<forall>p. diarization_pipeline stub_state = Some p \<longrightarrow>
         take 3 (snd (snd (diarize stub_state \<lparr>filename = None, content = []\<rparr>))) =
           [ReadUpload, TmpWrite ''.wav'', PipelineCall])"
    using inst by blast
  moreover have "diarization_pipeline stub_state = Some stub_pipeline"
    by (simp add: stub_state_def)
  moreover have "load_audio exact_ops stub_decoder stub_resample [] None \<noteq>
     (Inl (HTTPException 400 (''Unsupported format: '' @ suffix_of None)), [])"
    using inst by blast
  ultimately show ?thesis by blast
qed

subsection \<open>The waveform \<^verbatim>\<open>_load_audio\<close> returns\<close>





section \<open>Properties of the model state\<close>

lemma load_models_no_pipeline:
  assumes "load_models from_hparams from_pretrained hf_token initial_state = Inr (st, ev)"
      and "hf_token = None \<or> hf_token = Some [] \<or>
           (\<exists>tok. hf_token = Some tok \<and>
              (from_pretrained tok = Inr None \<or> (\<exists>exc. from_pretrained tok = Inl exc)))"
  shows "diarization_pipeline st = None"
  using assms
  by (auto simp: load_models_def initial_state_def Let_def split: sum.splits if_splits)

lemma load_models_written:
  assumes "load_models from_hparams from_pretrained hf_token initial_state = Inr (st, ev)"
  shows "models_loaded st" "ecapa_model st \<noteq> None"
  using assms
  by (auto simp: load_models_def initial_state_def Let_def
      split: sum.splits if_splits option.splits)

lemma health_state: "fst (health st) = st"
  by (simp add: health_def)

lemma compare_state: "fst (compare ops st body) = st"
  by (simp add: compare_def)

lemma embed_state: "fst (embed ops torchaudio_load resample st file) = st"
  by (simp add: embed_def split: option.splits prod.splits sum.splits)

lemma diarize_state: "fst (diarize st file) = st"
  by (simp add: diarize_def Let_def split: option.splits sum.splits)

lemma handle_request_state: "fst (handle_request ops torchaudio_load resample st req) = st"
  by (cases req)
    (simp_all add: handle_request_def lift_result_def health_state compare_state embed_state
      diarize_state)

lemma server_states_constant:
  "server_states ops torchaudio_load resample st reqs = replicate (length reqs) st"
  by (induction reqs) (simp_all add: handle_request_state)

text \<open>
  Claim C6: when start-up left no diarization pipeline (the token is unset or empty, or
  loading the pipeline raised or returned nothing), every call of \<^verbatim>\<open>/diarize\<close> fails
  with status 503 at once: the upload is not read, nothing is decoded, no load of the
  pipeline is attempted, and the model state stays as it was.
\<close>

theorem diarize_unavailable:
  assumes "load_models from_hparams from_pretrained hf_token initial_state = Inr (st, ev)"
      and "hf_token = None \<or> hf_token = Some [] \<or>
           (\<exists>tok. hf_token = Some tok \<and>
              (from_pretrained tok = Inr None \<or> (\<exists>exc. from_pretrained tok = Inl exc)))"
  shows "diarization_pipeline st = None \<and>
         diarize st file =
           (st,
            Inl (HTTPException 503
              ''Diarization not available. Set HF_TOKEN and accept pyannote model terms.''), []) \<and>
         handle_request ops torchaudio_load resample st (Diarize file) =
           (st, Inl (HTTPException 503
              ''Diarization not available. Set HF_TOKEN and accept pyannote model terms.''), [])"
proof -
  have n: "diarization_pipeline st = None"
    using assms by (rule load_models_no_pipeline)
  then show ?thesis
    by (simp add: diarize_def handle_request_def lift_result_def)
qed

theorem diarize_unavailable_witness:
  "load_models (Inr stub_ecapa) (\<lambda>tok. Inl ''gated'') (Some ''hf_x'') initial_state =
     Inr (\<lparr>ecapa_model = Some stub_ecapa, diarization_pipeline = None,
           models_loaded = True, diarization_available = False\<rparr>, [LoadEcapa, LoadPipeline]) \<and>
   diarize \<lparr>ecapa_model = Some stub_ecapa, diarization_pipeline = None,
            models_loaded = True, diarization_available = False\<rparr>
           \<lparr>filename = Some ''talk.wav'', content = []\<rparr> =
     (\<lparr>ecapa_model = Some stub_ecapa, diarization_pipeline = None,
       models_loaded = True, diarization_available = False\<rparr>,
      Inl (HTTPException 503
        ''Diarization not available. Set HF_TOKEN and accept pyannote model terms.''), [])"
proof -
  have l: "load_models (Inr stub_ecapa) (\<lambda>tok. Inl ''gated'') (Some ''hf_x'') initial_state =
     Inr (\<lparr>ecapa_model = Some stub_ecapa, diarization_pipeline = None,
           models_loaded = True, diarization_available = False\<rparr>, [LoadEcapa, LoadPipeline])"
    by (simp add: load_models_def initial_state_def)
  have h: "Some ''hf_x'' = None \<or> Some ''hf_x'' = Some [] \<or>
           (\<exists>tok. Some ''hf_x'' = Some tok \<and>
              ((\<lambda>tok. Inl ''gated'' :: string + pipeline option) tok = Inr None \<or>
               (\<exists>exc. (\<lambda>tok. Inl ''gated'' :: string + pipeline option) tok = Inl exc)))"
    by simp
  from diarize_unavailable [of "Inr stub_ecapa" "\<lambda>tok. Inl ''gated''" "Some ''hf_x''" _ _
      "\<lparr>filename = Some ''talk.wav'', content = []\<rparr>", OF l h]
  show ?thesis using l by blast
qed

text \<open>
  Claim C8: the model state is written by start-up only. \<^verbatim>\<open>_load_models\<close> leaves the
  embedding model and the loaded flag set; from then on each of the four handlers returns
  the state it was given, so the state after every request of any sequence of
  \<^verbatim>\<open>/health\<close>, \<^verbatim>\<open>/embed\<close>, \<^verbatim>\<open>/compare\<close> and \<^verbatim>\<open>/diarize\<close> requests is the state start-up
  left.
\<close>

theorem requests_never_write_model_state:
  assumes "load_models from_hparams from_pretrained hf_token initial_state = Inr (st, ev)"
  shows "models_loaded st \<and> ecapa_model st \<noteq> None \<and>
         run_server from_hparams from_pretrained hf_token ops torchaudio_load resample reqs =
           Inr (replicate (Suc (length reqs)) st) \<and>
         fst (handle_request ops torchaudio_load resample st req) = st \<and>
         fst (health st) = st \<and>
         fst (embed ops torchaudio_load resample st file) = st \<and>
         fst (compare ops st body) = st \<and>
         fst (diarize st file) = st"
  using assms load_models_written [OF assms]
  by (simp add: run_server_def server_states_constant handle_request_state health_state
      embed_state compare_state diarize_state)

theorem requests_never_write_model_state_witness:
  "load_models (Inr stub_ecapa) (\<lambda>tok. Inr (Some stub_pipeline)) (Some ''hf_x'') initial_state =
     Inr (stub_state, [LoadEcapa, LoadPipeline]) \<and>
   run_server (Inr stub_ecapa) (\<lambda>tok. Inr (Some stub_pipeline)) (Some ''hf_x'')
       exact_ops stub_decoder stub_resample
       [Health, Embed \<lparr>filename = Some ''a.wav'', content = []\<rparr>,
        Compare \<lparr>embedding_a = [1], embedding_b = [1]\<rparr>,
        Diarize \<lparr>filename = Some ''a.wav'', content = []\<rparr>] =
     Inr [stub_state, stub_state, stub_state, stub_state, stub_state]"
proof -
  have l: "load_models (Inr stub_ecapa) (\<lambda>tok. Inr (Some stub_pipeline)) (Some ''hf_x'') initial_state =
     Inr (stub_state, [LoadEcapa, LoadPipeline])"
    by (simp add: load_models_def initial_state_def stub_state_def)
  from requests_never_write_model_state [of "Inr stub_ecapa" "\<lambda>tok. Inr (Some stub_pipeline)"
      "Some ''hf_x''" stub_state "[LoadEcapa, LoadPipeline]" exact_ops stub_decoder stub_resample
      "[Health, Embed \<lparr>filename = Some ''a.wav'', content = []\<rparr>,
        Compare \<lparr>embedding_a = [1], embedding_b = [1]\<rparr>,
        Diarize \<lparr>filename = Some ''a.wav'', content = []\<rparr>]", OF l]
  show ?thesis using l by (simp add: numeral_eq_Suc)
qed

end
